theory Spec2Isabelle
  imports Main
begin

section \<open>The process and its collaborators\<close>

text \<open>
  \<^verbatim>\<open>main_poc.py\<close> talks to four collaborators it does not own: the filesystem
  (\<^verbatim>\<open>os.path.exists\<close>), the logger, the embedded JVM (\<^verbatim>\<open>jpype\<close>) and the JDBC
  bridge (\<^verbatim>\<open>jaydebeapi\<close>: connections and cursors). The model keeps what the script can
  observe of them: which paths exist, whether the JVM runs and with which arguments, and
  the ordered list of the calls the script has made.
\<close>

text \<open>
  A Python exception: whether it is an instance of \<^verbatim>\<open>Exception\<close> (what
  \<^verbatim>\<open>except Exception\<close> catches; \<^verbatim>\<open>KeyboardInterrupt\<close> is not), its class name and
  \<^verbatim>\<open>str(e)\<close>.
\<close>

datatype exn = Exn (is_Exception: bool) (cls: string) (str_of: string)

datatype conn = Conn nat

datatype cursor = Cursor nat

datatype pyval = PNone | PBool bool | PInt int | PStr string

type_synonym row = "pyval list"

datatype level = WARNING | INFO | ERROR

text \<open>The calls the script makes on its collaborators, with their arguments.\<close>

datatype event =
    is_Log: Log level string
  | is_StartJVM: StartJVM "string list"
  | is_Connect: Connect string string "(string \<times> string) list" string
  | is_ConnClose: ConnClose conn
  | is_ConnCursor: ConnCursor conn
  | is_CurExecute: CurExecute cursor string "pyval list option"
  | is_CurFetchall: CurFetchall cursor
  | is_CurClose: CurClose cursor

record world =
  files :: "string set"
  jvm :: "string list option"
  trace :: "event list"

text \<open>
  A Python computation: from the world to a raised exception (\<open>Inl\<close>) or a returned
  value (\<open>Inr\<close>), and the world it leaves.
\<close>

type_synonym 'a py = "world \<Rightarrow> (exn + 'a) \<times> world"

definition py_return :: "'a \<Rightarrow> 'a py" where
  "py_return x w = (Inr x, w)"

definition py_raise :: "exn \<Rightarrow> 'a py" where
  "py_raise e w = (Inl e, w)"

text \<open>A step that touches nothing: it only raises or returns.\<close>

definition py_outcome :: "exn + 'a \<Rightarrow> 'a py" where
  "py_outcome r w = (r, w)"

definition py_bind :: "'a py \<Rightarrow> ('a \<Rightarrow> 'b py) \<Rightarrow> 'b py" where
  "py_bind m f w = (case m w of (Inl e, w') \<Rightarrow> (Inl e, w') | (Inr x, w') \<Rightarrow> f x w')"

definition emit :: "event \<Rightarrow> world \<Rightarrow> world" where
  "emit ev w = w\<lparr>trace := trace w @ [ev]\<rparr>"

text \<open>The events a computation added: the trace only ever grows at its end.\<close>

definition new_events :: "world \<Rightarrow> world \<Rightarrow> event list" where
  "new_events w w' = drop (length (trace w)) (trace w')"

text \<open>
  What the collaborators answer during one acquisition. Each operation is called at most
  once in one run of \<^verbatim>\<open>get_connection\<close>, \<^verbatim>\<open>cockroach_connection\<close> or
  \<^verbatim>\<open>run_reconciliation_query\<close>, so one answer per operation describes any behaviour
  of the collaborators. A call that returns nothing answers \<open>None\<close> when it returns and
  \<open>Some e\<close> when it raises \<open>e\<close>.
\<close>

record env =
  jvm_path_result :: "exn + string"
  start_result :: "string list \<Rightarrow> exn option"
  connect_result :: "string \<Rightarrow> string \<Rightarrow> (string \<times> string) list \<Rightarrow> string \<Rightarrow> exn + conn"
  close_result :: "conn \<Rightarrow> exn option"
  cursor_result :: "conn \<Rightarrow> exn + cursor"
  execute_result :: "cursor \<Rightarrow> string \<Rightarrow> pyval list option \<Rightarrow> exn option"
  fetchall_result :: "cursor \<Rightarrow> exn + row list"
  description_result :: "cursor \<Rightarrow> exn + row list option"
  cursor_close_result :: "cursor \<Rightarrow> exn option"

definition unit_result :: "exn option \<Rightarrow> exn + unit" where
  "unit_result r = (case r of None \<Rightarrow> Inr () | Some e \<Rightarrow> Inl e)"

subsection \<open>Library calls\<close>

definition logger_warning :: "string \<Rightarrow> unit py" where
  "logger_warning s w = (Inr (), emit (Log WARNING s) w)"

definition logger_info :: "string \<Rightarrow> unit py" where
  "logger_info s w = (Inr (), emit (Log INFO s) w)"

definition logger_error :: "string \<Rightarrow> unit py" where
  "logger_error s w = (Inr (), emit (Log ERROR s) w)"

text \<open>\<^verbatim>\<open>os.path.exists\<close> answers \<^verbatim>\<open>False\<close> where the lookup fails; it does not raise.\<close>

definition os_path_exists :: "string \<Rightarrow> bool py" where
  "os_path_exists p w = (Inr (p \<in> files w), w)"

definition jpype_isJVMStarted :: "bool py" where
  "jpype_isJVMStarted w = (Inr (jvm w \<noteq> None), w)"

definition jpype_getDefaultJVMPath :: "env \<Rightarrow> string py" where
  "jpype_getDefaultJVMPath env w = (jvm_path_result env, w)"

text \<open>A start that raises leaves the JVM not started.\<close>

definition jpype_startJVM :: "env \<Rightarrow> string list \<Rightarrow> unit py" where
  "jpype_startJVM env args w =
     (case start_result env args of
        Some e \<Rightarrow> (Inl e, emit (StartJVM args) w)
      | None \<Rightarrow> (Inr (), emit (StartJVM args) (w\<lparr>jvm := Some args\<rparr>)))"

definition jaydebeapi_connect ::
  "env \<Rightarrow> string \<Rightarrow> string \<Rightarrow> (string \<times> string) list \<Rightarrow> string \<Rightarrow> conn py" where
  "jaydebeapi_connect env jclassname url driver_args jars w =
     (connect_result env jclassname url driver_args jars,
      emit (Connect jclassname url driver_args jars) w)"

definition conn_close :: "env \<Rightarrow> conn \<Rightarrow> unit py" where
  "conn_close env c w = (unit_result (close_result env c), emit (ConnClose c) w)"

definition conn_cursor :: "env \<Rightarrow> conn \<Rightarrow> cursor py" where
  "conn_cursor env c w = (cursor_result env c, emit (ConnCursor c) w)"

definition cur_execute :: "env \<Rightarrow> cursor \<Rightarrow> string \<Rightarrow> pyval list option \<Rightarrow> unit py" where
  "cur_execute env cur operation parameters w =
     (unit_result (execute_result env cur operation parameters),
      emit (CurExecute cur operation parameters) w)"

definition cur_fetchall :: "env \<Rightarrow> cursor \<Rightarrow> row list py" where
  "cur_fetchall env cur w = (fetchall_result env cur, emit (CurFetchall cur) w)"

text \<open>\<^verbatim>\<open>cur.description\<close> is an attribute read: \<^verbatim>\<open>None\<close> when there is no result set.\<close>

definition cur_description :: "env \<Rightarrow> cursor \<Rightarrow> row list option py" where
  "cur_description env cur w = (description_result env cur, w)"

definition cur_close :: "env \<Rightarrow> cursor \<Rightarrow> unit py" where
  "cur_close env cur w = (unit_result (cursor_close_result env cur), emit (CurClose cur) w)"

subsection \<open>Formatting\<close>

text \<open>\<^verbatim>\<open>str\<close> of an integer, as an f-string renders \<^verbatim>\<open>{PORT}\<close>.\<close>

definition digit_char :: "nat \<Rightarrow> char" where
  "digit_char d = ''0123456789'' ! d"

function str_nat :: "nat \<Rightarrow> string" where
  "str_nat n = (if n < 10 then [digit_char n] else str_nat (n div 10) @ [digit_char (n mod 10)])"
  by pat_completeness auto
termination
  by (relation "measure id") auto

declare str_nat.simps [simp del]

definition str_int :: "int \<Rightarrow> string" where
  "str_int i = (if i < 0 then CHR ''-'' # str_nat (nat (- i)) else str_nat (nat i))"

definition backslash :: char where
  "backslash = CHR 0x5C"

section \<open>main\_poc.py\<close>

text \<open>The module-level configuration constants, read by the functions when they run.\<close>

record config =
  PG_JAR :: string
  KRB5_CONF :: string
  JAAS_CONF :: string
  HOST :: string
  PORT :: int
  DB :: string
  SPN :: string

definition module_config :: config where
  "module_config = \<lparr>
     PG_JAR = ''I:'' @ backslash # ''configs'' @ backslash # ''dbeaver'' @ backslash
              # ''postgresql-42.3.3.jar'',
     KRB5_CONF = ''I:'' @ backslash # ''configs'' @ backslash # ''dbeaver'' @ backslash
              # ''krb5.conf'',
     JAAS_CONF = ''I:'' @ backslash # ''configs'' @ backslash # ''dbeaver'' @ backslash
              # ''jaas.conf'',
     HOST = ''P001-104990-104991.na.cockroachdb.jpmchase.net'',
     PORT = 26300,
     DB = ''defaultdb'',
     SPN = ''cockroachdb'' \<rparr>"

definition ticket_cache :: string where
  "ticket_cache = ''C:'' @ backslash # ''Users'' @ backslash # ''N123456'' @ backslash
                  # ''krb5cc_N123456''"

definition ensure_kerberos_ticket :: "bool py" where
  "ensure_kerberos_ticket =
     py_bind (os_path_exists ticket_cache) (\<lambda>found.
       if \<not> found then
         py_bind (logger_warning (''Kerberos ticket cache not found at '' @ ticket_cache)) (\<lambda>_.
         py_bind (logger_warning ''Run 'kinit' to authenticate'') (\<lambda>_.
         py_return False))
       else py_return True)"

text \<open>The options \<^verbatim>\<open>startJVM\<close> receives after the JVM path.\<close>

definition jvm_options :: "config \<Rightarrow> string list" where
  "jvm_options cfg =
     [''-Djava.class.path='' @ PG_JAR cfg,
      ''-Djava.security.krb5.conf='' @ KRB5_CONF cfg,
      ''-Djava.security.auth.login.config='' @ JAAS_CONF cfg,
      ''-Djavax.security.auth.useSubjectCredsOnly=false'',
      ''-Duser.timezone=UTC'']"

definition jdbc_url :: "config \<Rightarrow> string" where
  "jdbc_url cfg =
     ''jdbc:postgresql://'' @ HOST cfg @ '':'' @ str_int (PORT cfg) @ ''/'' @ DB cfg
     @ ''?sslmode=require''
     @ ''&kerberosServerName='' @ SPN cfg
     @ ''&gssEncMode=disable''
     @ ''&connectTimeout=20''
     @ ''&socketTimeout=300''"

definition props :: "(string \<times> string) list" where
  "props = [(''jaasApplicationName'', ''pgjdbc''),
            (''ApplicationName'', ''Python-JDBC-Kerberos'')]"

definition no_ticket :: exn where
  "no_ticket = Exn True ''Exception'' ''No valid Kerberos ticket found''"

definition get_connection :: "env \<Rightarrow> config \<Rightarrow> conn py" where
  "get_connection env cfg =
     py_bind ensure_kerberos_ticket (\<lambda>ticket.
       if \<not> ticket then py_raise no_ticket
       else
         py_bind jpype_isJVMStarted (\<lambda>started.
         py_bind
           (if \<not> started then
              py_bind (logger_info ''Starting JVM with Kerberos configuration'') (\<lambda>_.
              py_bind (jpype_getDefaultJVMPath env) (\<lambda>jvmpath.
              jpype_startJVM env (jvmpath # jvm_options cfg)))
            else py_return ()) (\<lambda>_.
         py_bind
           (logger_info (''Connecting to '' @ HOST cfg @ '':'' @ str_int (PORT cfg)
                         @ ''/'' @ DB cfg)) (\<lambda>_.
         jaydebeapi_connect env ''org.postgresql.Driver'' (jdbc_url cfg) props
           (PG_JAR cfg)))))"

text \<open>
  \<^verbatim>\<open>cockroach_connection\<close> is a generator under \<^verbatim>\<open>@contextmanager\<close>; the \<^verbatim>\<open>with\<close>
  statement runs it to the \<^verbatim>\<open>yield\<close>, runs the caller's body, and throws the body's
  exception back in at the \<^verbatim>\<open>yield\<close>, inside the \<^verbatim>\<open>try\<close>. The body is a parameter here.

  The \<^verbatim>\<open>except Exception as e\<close> clause logs and re-raises \<open>e\<close>; an exception that is not
  an \<^verbatim>\<open>Exception\<close> passes it by.
\<close>

definition except_clause :: "exn \<Rightarrow> unit py" where
  "except_clause e =
     (if is_Exception e then logger_error (''Connection failed: '' @ str_of e)
      else py_return ())"

text \<open>
  The \<^verbatim>\<open>finally\<close> clause. \<open>conn\<close> is \<^verbatim>\<open>None\<close> or the object \<^verbatim>\<open>jaydebeapi.connect\<close>
  returned; that class defines neither \<^verbatim>\<open>__bool__\<close> nor \<^verbatim>\<open>__len__\<close>, so
  \<^verbatim>\<open>if conn:\<close> asks whether a handle was opened.
\<close>

definition finally_clause :: "env \<Rightarrow> conn option \<Rightarrow> unit py" where
  "finally_clause env conn =
     (case conn of
        None \<Rightarrow> py_return ()
      | Some c \<Rightarrow> py_bind (conn_close env c) (\<lambda>_. logger_info ''Connection closed''))"

text \<open>
  Leaving the \<^verbatim>\<open>try\<close> statement with outcome \<open>r\<close>: the clean-up runs, and an exception
  it raises replaces \<open>r\<close>.
\<close>

definition leave :: "exn + 'a \<Rightarrow> unit py \<Rightarrow> 'a py" where
  "leave r cleanup w =
     (case cleanup w of (Inl e', w') \<Rightarrow> (Inl e', w') | (Inr _, w') \<Rightarrow> (r, w'))"

definition cockroach_connection :: "env \<Rightarrow> config \<Rightarrow> (conn \<Rightarrow> 'a py) \<Rightarrow> 'a py" where
  "cockroach_connection env cfg body w =
     (case get_connection env cfg w of
        (Inl e, w1) \<Rightarrow>
          leave (Inl e) (py_bind (except_clause e) (\<lambda>_. finally_clause env None)) w1
      | (Inr c, w1) \<Rightarrow>
          (case py_bind (logger_info ''Connection established successfully'')
                  (\<lambda>_. body c) w1 of
             (Inl e, w2) \<Rightarrow>
               leave (Inl e)
                 (py_bind (except_clause e) (\<lambda>_. finally_clause env (Some c))) w2
           | (Inr v, w2) \<Rightarrow> leave (Inr v) (finally_clause env (Some c)) w2))"

text \<open>Truth value of the \<^verbatim>\<open>params\<close> argument: \<^verbatim>\<open>None\<close> and an empty sequence are false.\<close>

definition truthy :: "pyval list option \<Rightarrow> bool" where
  "truthy params = (case params of None \<Rightarrow> False | Some ps \<Rightarrow> ps \<noteq> [])"

text \<open>\<^verbatim>\<open>[desc[0] for desc in cur.description]\<close>\<close>

fun first_items :: "row list \<Rightarrow> exn + pyval list" where
  "first_items [] = Inr []"
| "first_items (desc # rest) =
     (case desc of
        [] \<Rightarrow> Inl (Exn True ''IndexError'' ''tuple index out of range'')
      | x # _ \<Rightarrow> (case first_items rest of Inl e \<Rightarrow> Inl e | Inr xs \<Rightarrow> Inr (x # xs)))"

definition column_names :: "row list option \<Rightarrow> exn + pyval list" where
  "column_names description =
     (case description of
        None \<Rightarrow>
          Inl (Exn True ''TypeError''
                 (CHR 0x27 # ''NoneType'' @ CHR 0x27 # '' object is not iterable''))
      | Some descs \<Rightarrow> first_items descs)"

definition query_body ::
  "env \<Rightarrow> string \<Rightarrow> pyval list option \<Rightarrow> conn \<Rightarrow> (pyval list \<times> row list) py" where
  "query_body env query params conn =
     py_bind (conn_cursor env conn) (\<lambda>cur.
     py_bind (if truthy params then cur_execute env cur query params
              else cur_execute env cur query None) (\<lambda>_.
     py_bind (cur_fetchall env cur) (\<lambda>results.
     py_bind (py_bind (cur_description env cur) (\<lambda>description.
              py_outcome (column_names description))) (\<lambda>columns.
     py_bind (cur_close env cur) (\<lambda>_.
     py_return (columns, results))))))"

definition run_reconciliation_query ::
  "env \<Rightarrow> config \<Rightarrow> string \<Rightarrow> pyval list option \<Rightarrow> (pyval list \<times> row list) py" where
  "run_reconciliation_query env cfg query params =
     cockroach_connection env cfg (query_body env query params)"

section \<open>Sequences of acquisitions and sample collaborators\<close>

text \<open>
  Several acquisitions one after the other in one process, each with the configuration
  and the collaborators' answers of its moment; the caller keeps neither the handle nor
  the exception.
\<close>

fun get_connections :: "(env \<times> config) list \<Rightarrow> world \<Rightarrow> world" where
  "get_connections [] w = w"
| "get_connections ((env, cfg) # calls) w = get_connections calls (snd (get_connection env cfg w))"

definition start_count :: "event list \<Rightarrow> nat" where
  "start_count evs = length (filter is_StartJVM evs)"

text \<open>Collaborators that answer every call: one connection, one cursor, one row.\<close>

definition driver_ok :: env where
  "driver_ok = \<lparr>
     jvm_path_result = Inr ''/usr/lib/jvm/lib/server/libjvm.so'',
     start_result = (\<lambda>_. None),
     connect_result = (\<lambda>_ _ _ _. Inr (Conn 0)),
     close_result = (\<lambda>_. None),
     cursor_result = (\<lambda>_. Inr (Cursor 0)),
     execute_result = (\<lambda>_ _ _. None),
     fetchall_result = (\<lambda>_. Inr [[PInt 1]]),
     description_result = (\<lambda>_. Inr (Some [[PStr ''?column?'', PInt 23]])),
     cursor_close_result = (\<lambda>_. None) \<rparr>"

definition fresh_world :: world where
  "fresh_world = \<lparr> files = {}, jvm = None, trace = [] \<rparr>"

definition ticket_world :: world where
  "ticket_world = \<lparr> files = {ticket_cache}, jvm = None, trace = [] \<rparr>"

text \<open>Collaborators whose driver class cannot be loaded: the connect call raises.\<close>

definition class_not_found :: exn where
  "class_not_found = Exn True ''TypeError'' ''Class org.postgresql.Driver is not found''"

definition driver_missing :: env where
  "driver_missing = driver_ok \<lparr> connect_result := (\<lambda>_ _ _ _. Inl class_not_found) \<rparr>"

text \<open>The wire target descriptor as the specification writes it, field by field.\<close>

definition spec_wire_target_descriptor ::
  "string \<Rightarrow> string \<Rightarrow> int \<Rightarrow> string \<Rightarrow> string \<Rightarrow> int \<Rightarrow> int \<Rightarrow> string" where
  "spec_wire_target_descriptor protocol host port database spn connect_secs socket_secs =
     protocol @ ''://'' @ host @ '':'' @ str_int port @ ''/'' @ database
     @ ''?sslmode=require&kerberosServerName='' @ spn
     @ ''&gssEncMode=disable&connectTimeout='' @ str_int connect_secs
     @ ''&socketTimeout='' @ str_int socket_secs"

text \<open>
  What the scope adds to the trace after the caller's body has ended with outcome \<open>r\<close>:
  the error line when an \<^verbatim>\<open>Exception\<close> came out of the body, the close call, and the
  closing line when the close call returned.
\<close>

definition scope_exit_events :: "env \<Rightarrow> conn \<Rightarrow> exn + 'a \<Rightarrow> event list" where
  "scope_exit_events env c r =
     (case r of
        Inl e \<Rightarrow> if is_Exception e then [Log ERROR (''Connection failed: '' @ str_of e)] else []
      | Inr _ \<Rightarrow> [])
     @ ConnClose c
     # (case close_result env c of None \<Rightarrow> [Log INFO ''Connection closed''] | Some _ \<Rightarrow> [])"

text \<open>
  What line 101 of the source yields for a cursor: the description read, then the first
  item of each of its entries.
\<close>

definition read_columns :: "env \<Rightarrow> cursor \<Rightarrow> exn + pyval list" where
  "read_columns env cur =
     (case description_result env cur of Inl e \<Rightarrow> Inl e | Inr d \<Rightarrow> column_names d)"

text \<open>The parameter argument that \<^verbatim>\<open>cur.execute\<close> receives: none when \<^verbatim>\<open>params\<close> is false.\<close>

definition execute_argument :: "pyval list option \<Rightarrow> pyval list option" where
  "execute_argument params = (if truthy params then params else None)"

text \<open>
  The cursor is created, and executing, fetching and reading the description all return.
\<close>

definition query_reads_ok :: "env \<Rightarrow> conn \<Rightarrow> string \<Rightarrow> pyval list option \<Rightarrow> bool" where
  "query_reads_ok env c query params =
     (case cursor_result env c of
        Inl _ \<Rightarrow> False
      | Inr cur \<Rightarrow>
          execute_result env cur query (execute_argument params) = None \<and>
          \<not> isl (fetchall_result env cur) \<and>
          \<not> isl (read_columns env cur))"

text \<open>Collaborators whose cursor rejects the statement: \<^verbatim>\<open>execute\<close> raises.\<close>

definition syntax_error :: exn where
  "syntax_error = Exn True ''DatabaseError'' ''ERROR: syntax error at or near SELEC''"

definition driver_rejects :: env where
  "driver_rejects = driver_ok \<lparr> execute_result := (\<lambda>_ _ _. Some syntax_error) \<rparr>"

text \<open>Collaborators whose JVM cannot be started: every start raises.\<close>

definition jvm_not_found :: exn where
  "jvm_not_found = Exn True ''OSError'' ''JVM DLL not found''"

definition jvm_broken :: env where
  "jvm_broken = driver_ok \<lparr> start_result := (\<lambda>_. Some jvm_not_found) \<rparr>"

text \<open>
  The body of \<^verbatim>\<open>run_reconciliation_query\<close> in one piece: the calls it makes on the
  connection and the cursor, up to the first one that raises, and how it ends.
\<close>

definition query_events :: "env \<Rightarrow> conn \<Rightarrow> string \<Rightarrow> pyval list option \<Rightarrow> event list" where
  "query_events env c query params =
     ConnCursor c #
     (case cursor_result env c of
        Inl _ \<Rightarrow> []
      | Inr cur \<Rightarrow>
          CurExecute cur query (execute_argument params) #
          (case execute_result env cur query (execute_argument params) of
             Some _ \<Rightarrow> []
           | None \<Rightarrow>
               CurFetchall cur #
               (if isl (fetchall_result env cur) \<or> isl (read_columns env cur) then []
                else [CurClose cur])))"

definition query_outcome ::
  "env \<Rightarrow> conn \<Rightarrow> string \<Rightarrow> pyval list option \<Rightarrow> exn + pyval list \<times> row list" where
  "query_outcome env c query params =
     (case cursor_result env c of
        Inl e \<Rightarrow> Inl e
      | Inr cur \<Rightarrow>
          (case execute_result env cur query (execute_argument params) of
             Some e \<Rightarrow> Inl e
           | None \<Rightarrow>
               (case fetchall_result env cur of
                  Inl e \<Rightarrow> Inl e
                | Inr rows \<Rightarrow>
                    (case read_columns env cur of
                       Inl e \<Rightarrow> Inl e
                     | Inr columns \<Rightarrow>
                         (case cursor_close_result env cur of
                            Some e \<Rightarrow> Inl e
                          | None \<Rightarrow> Inr (columns, rows))))))"

section \<open>Running the script's functions\<close>

lemmas py_defs = py_bind_def py_return_def py_raise_def py_outcome_def emit_def
  logger_warning_def logger_info_def logger_error_def os_path_exists_def
  jpype_isJVMStarted_def jpype_getDefaultJVMPath_def jpype_startJVM_def jaydebeapi_connect_def
  conn_close_def conn_cursor_def cur_execute_def cur_fetchall_def cur_description_def
  cur_close_def unit_result_def

lemma new_events_append [simp]: "trace w' = trace w @ evs \<Longrightarrow> new_events w w' = evs"
  by (simp add: new_events_def)

lemma ensure_kerberos_ticket_eq:
  "ensure_kerberos_ticket w =
     (if ticket_cache \<in> files w then (Inr True, w)
      else (Inr False, w\<lparr>trace := trace w @
              [Log WARNING (''Kerberos ticket cache not found at '' @ ticket_cache),
               Log WARNING ''Run 'kinit' to authenticate'']\<rparr>))"
  by (simp add: ensure_kerberos_ticket_def py_defs)

lemma get_connection_no_ticket:
  "ticket_cache \<notin> files w \<Longrightarrow>
   get_connection env cfg w =
     (Inl no_ticket, w\<lparr>trace := trace w @
              [Log WARNING (''Kerberos ticket cache not found at '' @ ticket_cache),
               Log WARNING ''Run 'kinit' to authenticate'']\<rparr>)"
  by (simp add: get_connection_def ensure_kerberos_ticket_eq py_defs)

lemma get_connection_started:
  "ticket_cache \<in> files w \<Longrightarrow> jvm w = Some a \<Longrightarrow>
   get_connection env cfg w =
     (connect_result env ''org.postgresql.Driver'' (jdbc_url cfg) props (PG_JAR cfg),
      w\<lparr>trace := trace w @
          [Log INFO (''Connecting to '' @ HOST cfg @ '':'' @ str_int (PORT cfg) @ ''/'' @ DB cfg),
           Connect ''org.postgresql.Driver'' (jdbc_url cfg) props (PG_JAR cfg)]\<rparr>)"
  by (simp add: get_connection_def ensure_kerberos_ticket_eq py_defs)

lemma get_connection_no_path:
  "ticket_cache \<in> files w \<Longrightarrow> jvm w = None \<Longrightarrow> jvm_path_result env = Inl e \<Longrightarrow>
   get_connection env cfg w =
     (Inl e, w\<lparr>trace := trace w @ [Log INFO ''Starting JVM with Kerberos configuration'']\<rparr>)"
  by (simp add: get_connection_def ensure_kerberos_ticket_eq py_defs)

lemma get_connection_start_fails:
  "ticket_cache \<in> files w \<Longrightarrow> jvm w = None \<Longrightarrow> jvm_path_result env = Inr p \<Longrightarrow>
   start_result env (p # jvm_options cfg) = Some e \<Longrightarrow>
   get_connection env cfg w =
     (Inl e, w\<lparr>trace := trace w @ [Log INFO ''Starting JVM with Kerberos configuration'',
                 StartJVM (p # jvm_options cfg)]\<rparr>)"
  by (simp add: get_connection_def ensure_kerberos_ticket_eq py_defs)

lemma get_connection_start_ok:
  "ticket_cache \<in> files w \<Longrightarrow> jvm w = None \<Longrightarrow> jvm_path_result env = Inr p \<Longrightarrow>
   start_result env (p # jvm_options cfg) = None \<Longrightarrow>
   get_connection env cfg w =
     (connect_result env ''org.postgresql.Driver'' (jdbc_url cfg) props (PG_JAR cfg),
      w\<lparr>jvm := Some (p # jvm_options cfg), trace := trace w @
          [Log INFO ''Starting JVM with Kerberos configuration'',
           StartJVM (p # jvm_options cfg),
           Log INFO (''Connecting to '' @ HOST cfg @ '':'' @ str_int (PORT cfg) @ ''/'' @ DB cfg),
           Connect ''org.postgresql.Driver'' (jdbc_url cfg) props (PG_JAR cfg)]\<rparr>)"
  by (simp add: get_connection_def ensure_kerberos_ticket_eq py_defs)

lemma str_int_20: "str_int 20 = ''20''" by (simp add: str_int_def str_nat.simps digit_char_def)
lemma str_int_300: "str_int 300 = ''300''" by (simp add: str_int_def str_nat.simps digit_char_def)

lemma get_connection_returns:
  assumes "get_connection env cfg w = (Inr c, w')"
  shows "connect_result env ''org.postgresql.Driver'' (jdbc_url cfg) props (PG_JAR cfg) = Inr c \<and>
     (\<exists>pre. trace w' = trace w @ pre @
         [Log INFO (''Connecting to '' @ HOST cfg @ '':'' @ str_int (PORT cfg) @ ''/'' @ DB cfg),
          Connect ''org.postgresql.Driver'' (jdbc_url cfg) props (PG_JAR cfg)] \<and>
        (\<forall>ev\<in>set pre. is_Log ev \<or> is_StartJVM ev))"
proof (cases "ticket_cache \<in> files w")
  case False
  with assms show ?thesis by (simp add: get_connection_no_ticket)
next
  case ticket: True
  show ?thesis
  proof (cases "jvm w")
    case (Some a)
    with ticket assms show ?thesis by (auto simp: get_connection_started)
  next
    case None
    show ?thesis
    proof (cases "jvm_path_result env")
      case (Inl e)
      with ticket None assms show ?thesis by (simp add: get_connection_no_path)
    next
      case (Inr p)
      show ?thesis
      proof (cases "start_result env (p # jvm_options cfg)")
        case (Some e)
        with ticket None Inr assms show ?thesis by (simp add: get_connection_start_fails)
      next
        case start: None
        have "get_connection env cfg w =
          (connect_result env ''org.postgresql.Driver'' (jdbc_url cfg) props (PG_JAR cfg),
           w\<lparr>jvm := Some (p # jvm_options cfg), trace := trace w @
            [Log INFO ''Starting JVM with Kerberos configuration'',
             StartJVM (p # jvm_options cfg),
             Log INFO (''Connecting to '' @ HOST cfg @ '':'' @ str_int (PORT cfg) @ ''/'' @ DB cfg),
             Connect ''org.postgresql.Driver'' (jdbc_url cfg) props (PG_JAR cfg)]\<rparr>)"
          using ticket None Inr start by (rule get_connection_start_ok)
        with assms have c: "connect_result env ''org.postgresql.Driver'' (jdbc_url cfg) props (PG_JAR cfg) = Inr c"
          and w': "trace w' = trace w @
            [Log INFO ''Starting JVM with Kerberos configuration'',
             StartJVM (p # jvm_options cfg)] @
            [Log INFO (''Connecting to '' @ HOST cfg @ '':'' @ str_int (PORT cfg) @ ''/'' @ DB cfg),
             Connect ''org.postgresql.Driver'' (jdbc_url cfg) props (PG_JAR cfg)]" by auto
        from w' have "\<exists>pre. trace w' = trace w @ pre @
         [Log INFO (''Connecting to '' @ HOST cfg @ '':'' @ str_int (PORT cfg) @ ''/'' @ DB cfg),
          Connect ''org.postgresql.Driver'' (jdbc_url cfg) props (PG_JAR cfg)] \<and>
        (\<forall>ev\<in>set pre. is_Log ev \<or> is_StartJVM ev)"
          by (intro exI[of _ "[Log INFO ''Starting JVM with Kerberos configuration'',
             StartJVM (p # jvm_options cfg)]"]) simp
        with c show ?thesis by simp
      qed
    qed
  qed
qed

lemma cockroach_connection_not_acquired:
  "get_connection env cfg w = (Inl e, w1) \<Longrightarrow>
   cockroach_connection env cfg body w =
     (Inl e, if is_Exception e
             then w1\<lparr>trace := trace w1 @ [Log ERROR (''Connection failed: '' @ str_of e)]\<rparr>
             else w1)"
  by (simp add: cockroach_connection_def leave_def except_clause_def finally_clause_def py_defs)

lemma cockroach_connection_acquired:
  "get_connection env cfg w = (Inr c, w1) \<Longrightarrow>
   body c (w1\<lparr>trace := trace w1 @ [Log INFO ''Connection established successfully'']\<rparr>) = (r, w2) \<Longrightarrow>
   cockroach_connection env cfg body w =
     ((case close_result env c of Some e' \<Rightarrow> Inl e' | None \<Rightarrow> r),
      w2\<lparr>trace := trace w2 @ scope_exit_events env c r\<rparr>)"
  by (cases r; cases "close_result env c")
     (simp_all add: cockroach_connection_def leave_def except_clause_def finally_clause_def py_defs
       scope_exit_events_def)

lemma get_connection_ok_ticket_world:
  "get_connection driver_ok cfg ticket_world =
     (Inr (Conn 0),
      ticket_world\<lparr>jvm := Some (''/usr/lib/jvm/lib/server/libjvm.so'' # jvm_options cfg),
        trace :=
          [Log INFO ''Starting JVM with Kerberos configuration'',
           StartJVM (''/usr/lib/jvm/lib/server/libjvm.so'' # jvm_options cfg),
           Log INFO (''Connecting to '' @ HOST cfg @ '':'' @ str_int (PORT cfg) @ ''/'' @ DB cfg),
           Connect ''org.postgresql.Driver'' (jdbc_url cfg) props (PG_JAR cfg)]\<rparr>)"
  using get_connection_start_ok [of ticket_world driver_ok "''/usr/lib/jvm/lib/server/libjvm.so''" cfg]
  by (simp add: ticket_world_def driver_ok_def)

lemma cockroach_connection_no_ticket:
  assumes "ticket_cache \<notin> files w"
  shows "cockroach_connection env cfg body w =
     (Inl no_ticket,
      w\<lparr>trace := trace w @
         [Log WARNING (''Kerberos ticket cache not found at '' @ ticket_cache),
          Log WARNING ''Run 'kinit' to authenticate'',
          Log ERROR ''Connection failed: No valid Kerberos ticket found'']\<rparr>)"
  using cockroach_connection_not_acquired [OF get_connection_no_ticket [OF assms], of env cfg body]
  by (simp add: no_ticket_def)

lemma get_connection_missing_ticket_world:
  "get_connection driver_missing cfg ticket_world =
     (Inl class_not_found,
      ticket_world\<lparr>jvm := Some (''/usr/lib/jvm/lib/server/libjvm.so'' # jvm_options cfg),
        trace :=
          [Log INFO ''Starting JVM with Kerberos configuration'',
           StartJVM (''/usr/lib/jvm/lib/server/libjvm.so'' # jvm_options cfg),
           Log INFO (''Connecting to '' @ HOST cfg @ '':'' @ str_int (PORT cfg) @ ''/'' @ DB cfg),
           Connect ''org.postgresql.Driver'' (jdbc_url cfg) props (PG_JAR cfg)]\<rparr>)"
  using get_connection_start_ok [of ticket_world driver_missing "''/usr/lib/jvm/lib/server/libjvm.so''" cfg]
  by (simp add: ticket_world_def driver_ok_def driver_missing_def)

lemma read_columns_step:
  "py_bind (cur_description env cur) (\<lambda>description. py_outcome (column_names description)) w =
     (read_columns env cur, w)"
  by (simp add: py_defs read_columns_def split: sum.split)

lemma query_body_steps:
  "query_body env query params c =
     py_bind (conn_cursor env c) (\<lambda>cur.
     py_bind (cur_execute env cur query (execute_argument params)) (\<lambda>_.
     py_bind (cur_fetchall env cur) (\<lambda>results.
     py_bind (py_outcome (read_columns env cur)) (\<lambda>columns.
     py_bind (cur_close env cur) (\<lambda>_.
     py_return (columns, results))))))"
proof -
  have "\<And>cur. py_bind (cur_description env cur)
           (\<lambda>description. py_outcome (column_names description)) =
         py_outcome (read_columns env cur)"
    by (rule ext) (simp add: read_columns_step py_outcome_def)
  then show ?thesis
    by (simp add: query_body_def execute_argument_def cong: if_cong)
qed

lemma query_body_cursor_fails:
  "cursor_result env c = Inl e \<Longrightarrow>
   query_body env query params c w = (Inl e, w\<lparr>trace := trace w @ [ConnCursor c]\<rparr>)"
  by (simp add: query_body_steps py_defs)

lemma query_body_execute_fails:
  "cursor_result env c = Inr cur \<Longrightarrow>
   execute_result env cur query (execute_argument params) = Some e \<Longrightarrow>
   query_body env query params c w =
     (Inl e, w\<lparr>trace := trace w @
        [ConnCursor c, CurExecute cur query (execute_argument params)]\<rparr>)"
  by (simp add: query_body_steps py_defs)

lemma query_body_fetchall_fails:
  "cursor_result env c = Inr cur \<Longrightarrow>
   execute_result env cur query (execute_argument params) = None \<Longrightarrow>
   fetchall_result env cur = Inl e \<Longrightarrow>
   query_body env query params c w =
     (Inl e, w\<lparr>trace := trace w @
        [ConnCursor c, CurExecute cur query (execute_argument params), CurFetchall cur]\<rparr>)"
  by (simp add: query_body_steps py_defs)

lemma query_body_columns_fail:
  "cursor_result env c = Inr cur \<Longrightarrow>
   execute_result env cur query (execute_argument params) = None \<Longrightarrow>
   fetchall_result env cur = Inr rows \<Longrightarrow>
   read_columns env cur = Inl e \<Longrightarrow>
   query_body env query params c w =
     (Inl e, w\<lparr>trace := trace w @
        [ConnCursor c, CurExecute cur query (execute_argument params), CurFetchall cur]\<rparr>)"
  by (simp add: query_body_steps py_defs)

lemma query_body_reads_ok:
  "cursor_result env c = Inr cur \<Longrightarrow>
   execute_result env cur query (execute_argument params) = None \<Longrightarrow>
   fetchall_result env cur = Inr rows \<Longrightarrow>
   read_columns env cur = Inr columns \<Longrightarrow>
   query_body env query params c w =
     ((case cursor_close_result env cur of Some e \<Rightarrow> Inl e | None \<Rightarrow> Inr (columns, rows)),
      w\<lparr>trace := trace w @
        [ConnCursor c, CurExecute cur query (execute_argument params), CurFetchall cur,
         CurClose cur]\<rparr>)"
  by (simp add: query_body_steps py_defs split: option.split)

lemma first_items_nonempty: "[] \<notin> set ds \<Longrightarrow> first_items ds = Inr (map hd ds)"
  by (induction ds) (auto split: list.splits)

lemma first_items_empty_entry: "[] \<in> set ds \<Longrightarrow> isl (first_items ds)"
  by (induction ds) (auto split: list.splits sum.splits)

lemma first_items_Inr: "first_items ds = Inr xs \<longleftrightarrow> [] \<notin> set ds \<and> xs = map hd ds"
proof (cases "[] \<in> set ds")
  case True
  from first_items_empty_entry [OF this] show ?thesis using True by (auto simp: isl_def)
next
  case False
  from first_items_nonempty [OF this] show ?thesis using False by auto
qed

lemma get_connection_rejects_ticket_world:
  "get_connection driver_rejects cfg ticket_world =
     (Inr (Conn 0),
      ticket_world\<lparr>jvm := Some (''/usr/lib/jvm/lib/server/libjvm.so'' # jvm_options cfg),
        trace :=
          [Log INFO ''Starting JVM with Kerberos configuration'',
           StartJVM (''/usr/lib/jvm/lib/server/libjvm.so'' # jvm_options cfg),
           Log INFO (''Connecting to '' @ HOST cfg @ '':'' @ str_int (PORT cfg) @ ''/'' @ DB cfg),
           Connect ''org.postgresql.Driver'' (jdbc_url cfg) props (PG_JAR cfg)]\<rparr>)"
  using get_connection_start_ok [of ticket_world driver_rejects "''/usr/lib/jvm/lib/server/libjvm.so''" cfg]
  by (simp add: ticket_world_def driver_ok_def driver_rejects_def)

lemma query_body_driver_ok:
  "query_body driver_ok ''SELECT 1'' None (Conn 0) w =
     (Inr ([PStr ''?column?''], [[PInt 1]]),
      w\<lparr>trace := trace w @
        [ConnCursor (Conn 0), CurExecute (Cursor 0) ''SELECT 1'' None, CurFetchall (Cursor 0),
         CurClose (Cursor 0)]\<rparr>)"
  using query_body_reads_ok [of driver_ok "Conn 0" "Cursor 0" "''SELECT 1''" None "[[PInt 1]]"
     "[PStr ''?column?'']" w]
  by (simp add: driver_ok_def execute_argument_def truthy_def read_columns_def column_names_def)

lemma query_body_driver_rejects:
  "query_body driver_rejects ''SELEC 1'' None (Conn 0) w =
     (Inl syntax_error,
      w\<lparr>trace := trace w @ [ConnCursor (Conn 0), CurExecute (Cursor 0) ''SELEC 1'' None]\<rparr>)"
  using query_body_execute_fails [of driver_rejects "Conn 0" "Cursor 0" "''SELEC 1''" None
     syntax_error w]
  by (simp add: driver_ok_def driver_rejects_def execute_argument_def truthy_def)

lemma query_body_eq:
  "query_body env query params c w =
     (query_outcome env c query params,
      w\<lparr>trace := trace w @ query_events env c query params\<rparr>)"
  by (simp add: query_body_steps py_defs query_outcome_def query_events_def
        split: sum.split option.split)

lemma query_events_closes:
  "\<not> list_ex is_ConnClose (query_events env c query params)"
  "count_list (query_events env c query params) (ConnClose c) = 0"
  by (simp_all add: query_events_def split: sum.split option.split)

lemma query_events_execute:
  "filter is_CurExecute (query_events env c query params) =
     (case cursor_result env c of Inl _ \<Rightarrow> []
      | Inr cur \<Rightarrow> [CurExecute cur query (execute_argument params)])"
  by (simp add: query_events_def split: sum.split option.split)

lemma query_events_cursor_close:
  "filter is_CurClose (query_events env c query params) =
     (case cursor_result env c of Inl _ \<Rightarrow> []
      | Inr cur \<Rightarrow> if query_reads_ok env c query params then [CurClose cur] else [])"
  by (simp add: query_events_def query_reads_ok_def split: sum.split option.split)

lemma query_events_both_closes:
  "filter (\<lambda>ev. is_CurClose ev \<or> is_ConnClose ev) (query_events env c query params) =
     (case cursor_result env c of Inl _ \<Rightarrow> []
      | Inr cur \<Rightarrow> if query_reads_ok env c query params then [CurClose cur] else [])"
  by (simp add: query_events_def query_reads_ok_def split: sum.split option.split)

lemma query_outcome_not_ok:
  "\<not> query_reads_ok env c query params \<Longrightarrow> isl (query_outcome env c query params)"
  by (auto simp: query_outcome_def query_reads_ok_def split: sum.split option.split)

lemma query_outcome_Inr:
  "query_outcome env c query params = Inr (columns, rows) \<longleftrightarrow>
     (\<exists>cur. cursor_result env c = Inr cur \<and>
        execute_result env cur query (execute_argument params) = None \<and>
        fetchall_result env cur = Inr rows \<and> read_columns env cur = Inr columns \<and>
        cursor_close_result env cur = None)"
  by (auto simp: query_outcome_def split: sum.split option.split)

lemma scope_exit_events_closes:
  "filter (\<lambda>ev. is_CurClose ev \<or> is_ConnClose ev) (scope_exit_events env c r) = [ConnClose c]"
  "filter is_CurClose (scope_exit_events env c r) = []"
  "filter is_CurExecute (scope_exit_events env c r) = []"
  "count_list (scope_exit_events env c r) (ConnClose c) = 1"
  by (simp_all add: scope_exit_events_def split: sum.split option.split)

lemma run_reconciliation_query_acquired:
  assumes acquired: "get_connection env cfg w = (Inr c, w1)"
  shows "run_reconciliation_query env cfg query params w =
     ((case close_result env c of Some e' \<Rightarrow> Inl e'
       | None \<Rightarrow> query_outcome env c query params),
      w1\<lparr>trace := trace w1 @ Log INFO ''Connection established successfully'' #
          query_events env c query params @
          scope_exit_events env c (query_outcome env c query params)\<rparr>)"
  using cockroach_connection_acquired [where body = "query_body env query params",
      OF acquired query_body_eq]
  by (simp add: run_reconciliation_query_def)

lemma run_reconciliation_query_events:
  assumes acquired: "get_connection env cfg w = (Inr c, w1)"
  shows "\<exists>pre. (\<forall>ev\<in>set pre. is_Log ev \<or> is_StartJVM ev \<or> is_Connect ev) \<and>
     new_events w (snd (run_reconciliation_query env cfg query params w)) =
       pre @ query_events env c query params @
       scope_exit_events env c (query_outcome env c query params)"
proof -
  from get_connection_returns [OF acquired] obtain pre where
    tr: "trace w1 = trace w @ pre @
         [Log INFO (''Connecting to '' @ HOST cfg @ '':'' @ str_int (PORT cfg) @ ''/'' @ DB cfg),
          Connect ''org.postgresql.Driver'' (jdbc_url cfg) props (PG_JAR cfg)]"
    and pre: "\<forall>ev\<in>set pre. is_Log ev \<or> is_StartJVM ev" by blast
  let ?pre = "pre @ [Log INFO (''Connecting to '' @ HOST cfg @ '':'' @ str_int (PORT cfg) @ ''/'' @ DB cfg),
          Connect ''org.postgresql.Driver'' (jdbc_url cfg) props (PG_JAR cfg),
          Log INFO ''Connection established successfully'']"
  have "trace (snd (run_reconciliation_query env cfg query params w)) =
      trace w @ (?pre @ query_events env c query params @
       scope_exit_events env c (query_outcome env c query params))"
    by (simp add: run_reconciliation_query_acquired [OF acquired] tr)
  then have "new_events w (snd (run_reconciliation_query env cfg query params w)) =
      ?pre @ query_events env c query params @
       scope_exit_events env c (query_outcome env c query params)"
    by (rule new_events_append)
  moreover have "\<forall>ev\<in>set ?pre. is_Log ev \<or> is_StartJVM ev \<or> is_Connect ev"
    using pre by auto
  ultimately show ?thesis by blast
qed

lemma get_connection_step:
  "\<exists>evs. trace (snd (get_connection env cfg w)) = trace w @ evs \<and>
     (case jvm w of
        Some a \<Rightarrow> jvm (snd (get_connection env cfg w)) = Some a \<and> filter is_StartJVM evs = []
      | None \<Rightarrow>
          filter is_StartJVM evs = [] \<and> jvm (snd (get_connection env cfg w)) = None \<or>
          (\<exists>p. filter is_StartJVM evs = [StartJVM (p # jvm_options cfg)] \<and>
               (start_result env (p # jvm_options cfg) = None \<longrightarrow>
                  jvm (snd (get_connection env cfg w)) = Some (p # jvm_options cfg))))"
proof (cases "ticket_cache \<in> files w")
  case False
  then show ?thesis
    by (simp add: get_connection_no_ticket split: option.split)
next
  case ticket: True
  show ?thesis
  proof (cases "jvm w")
    case (Some a)
    with ticket show ?thesis by (simp add: get_connection_started)
  next
    case None
    show ?thesis
    proof (cases "jvm_path_result env")
      case (Inl e)
      with ticket None show ?thesis by (simp add: get_connection_no_path)
    next
      case (Inr p)
      show ?thesis
      proof (cases "start_result env (p # jvm_options cfg)")
        case (Some e)
        with ticket None Inr show ?thesis by (simp add: get_connection_start_fails)
      next
        case start: None
        with ticket None Inr show ?thesis by (simp add: get_connection_start_ok)
      qed
    qed
  qed
qed

lemma get_connections_started:
  "jvm w = Some a \<Longrightarrow>
   jvm (get_connections calls w) = Some a \<and>
   (\<exists>evs. trace (get_connections calls w) = trace w @ evs \<and> filter is_StartJVM evs = [])"
proof (induction calls arbitrary: w)
  case Nil
  then show ?case by simp
next
  case (Cons call calls)
  obtain env cfg where call: "call = (env, cfg)" by (cases call)
  let ?w1 = "snd (get_connection env cfg w)"
  from get_connection_step [of env cfg w] Cons.prems obtain evs1 where
    t1: "trace ?w1 = trace w @ evs1" and j1: "jvm ?w1 = Some a"
    and s1: "filter is_StartJVM evs1 = []" by auto
  from Cons.IH [OF j1] obtain evs2 where
    j2: "jvm (get_connections calls ?w1) = Some a"
    and t2: "trace (get_connections calls ?w1) = trace ?w1 @ evs2"
    and s2: "filter is_StartJVM evs2 = []" by blast
  have "trace (get_connections (call # calls) w) = trace w @ (evs1 @ evs2)"
    by (simp add: call t1 t2)
  moreover have "filter is_StartJVM (evs1 @ evs2) = []" by (simp add: s1 s2)
  ultimately show ?case using j2 call by auto
qed

lemma get_connections_at_most_one_start:
  "\<forall>(env, cfg)\<in>set calls. \<forall>args. start_result env args = None \<Longrightarrow>
   \<exists>evs. trace (get_connections calls w) = trace w @ evs \<and>
         length (filter is_StartJVM evs) \<le> 1"
proof (induction calls arbitrary: w)
  case Nil
  then show ?case by simp
next
  case (Cons call calls)
  obtain env cfg where call: "call = (env, cfg)" by (cases call)
  let ?w1 = "snd (get_connection env cfg w)"
  from Cons.prems call have ok: "\<And>args. start_result env args = None"
    and rest: "\<forall>(env, cfg)\<in>set calls. \<forall>args. start_result env args = None" by auto
  from get_connection_step [of env cfg w] obtain evs1 where
    t1: "trace ?w1 = trace w @ evs1"
    and c1: "(case jvm w of
        Some a \<Rightarrow> jvm ?w1 = Some a \<and> filter is_StartJVM evs1 = []
      | None \<Rightarrow>
          filter is_StartJVM evs1 = [] \<and> jvm ?w1 = None \<or>
          (\<exists>p. filter is_StartJVM evs1 = [StartJVM (p # jvm_options cfg)] \<and>
               (start_result env (p # jvm_options cfg) = None \<longrightarrow>
                  jvm ?w1 = Some (p # jvm_options cfg))))" by blast
  show ?case
  proof (cases "filter is_StartJVM evs1 = []")
    case True
    from Cons.IH [OF rest, of ?w1] obtain evs2 where
      t2: "trace (get_connections calls ?w1) = trace ?w1 @ evs2"
      and s2: "length (filter is_StartJVM evs2) \<le> 1" by blast
    have "trace (get_connections (call # calls) w) = trace w @ (evs1 @ evs2)"
      by (simp add: call t1 t2)
    moreover have "length (filter is_StartJVM (evs1 @ evs2)) \<le> 1" using True s2 by simp
    ultimately show ?thesis by blast
  next
    case False
    with c1 ok obtain p where s1: "filter is_StartJVM evs1 = [StartJVM (p # jvm_options cfg)]"
      and j1: "jvm ?w1 = Some (p # jvm_options cfg)"
      by (auto split: option.splits)
    from get_connections_started [OF j1, of calls] obtain evs2 where
      t2: "trace (get_connections calls ?w1) = trace ?w1 @ evs2"
      and s2: "filter is_StartJVM evs2 = []" by blast
    have "trace (get_connections (call # calls) w) = trace w @ (evs1 @ evs2)"
      by (simp add: call t1 t2)
    moreover have "length (filter is_StartJVM (evs1 @ evs2)) \<le> 1" using s1 s2 by simp
    ultimately show ?thesis by blast
  qed
qed

lemma get_connections_first_start:
  assumes ticket: "ticket_cache \<in> files w" and stopped: "jvm w = None"
    and path: "jvm_path_result env = Inr p"
    and ok: "start_result env (p # jvm_options cfg) = None"
  shows "jvm (get_connections ((env, cfg) # calls) w) = Some (p # jvm_options cfg) \<and>
     filter is_StartJVM (new_events w (get_connections ((env, cfg) # calls) w)) =
       [StartJVM (p # jvm_options cfg)]"
proof -
  let ?w1 = "snd (get_connection env cfg w)"
  note g = get_connection_start_ok [OF ticket stopped path ok]
  have j1: "jvm ?w1 = Some (p # jvm_options cfg)" by (simp add: g)
  have t1: "trace ?w1 = trace w @
          [Log INFO ''Starting JVM with Kerberos configuration'',
           StartJVM (p # jvm_options cfg),
           Log INFO (''Connecting to '' @ HOST cfg @ '':'' @ str_int (PORT cfg) @ ''/'' @ DB cfg),
           Connect ''org.postgresql.Driver'' (jdbc_url cfg) props (PG_JAR cfg)]"
    by (simp add: g)
  from get_connections_started [OF j1, of calls] obtain evs2 where
    j2: "jvm (get_connections calls ?w1) = Some (p # jvm_options cfg)"
    and t2: "trace (get_connections calls ?w1) = trace ?w1 @ evs2"
    and s2: "filter is_StartJVM evs2 = []" by blast
  have "trace (get_connections ((env, cfg) # calls) w) = trace w @
          ([Log INFO ''Starting JVM with Kerberos configuration'',
           StartJVM (p # jvm_options cfg),
           Log INFO (''Connecting to '' @ HOST cfg @ '':'' @ str_int (PORT cfg) @ ''/'' @ DB cfg),
           Connect ''org.postgresql.Driver'' (jdbc_url cfg) props (PG_JAR cfg)] @ evs2)"
    by (simp add: t1 t2)
  then have "new_events w (get_connections ((env, cfg) # calls) w) =
          [Log INFO ''Starting JVM with Kerberos configuration'',
           StartJVM (p # jvm_options cfg),
           Log INFO (''Connecting to '' @ HOST cfg @ '':'' @ str_int (PORT cfg) @ ''/'' @ DB cfg),
           Connect ''org.postgresql.Driver'' (jdbc_url cfg) props (PG_JAR cfg)] @ evs2"
    by (rule new_events_append)
  with j2 s2 show ?thesis by simp
qed

lemma run_reconciliation_query_driver_ok:
  "fst (run_reconciliation_query driver_ok module_config query params ticket_world) =
     Inr ([PStr ''?column?''], [[PInt 1]]) \<and>
   filter is_CurExecute (new_events ticket_world
        (snd (run_reconciliation_query driver_ok module_config query params ticket_world))) =
      [CurExecute (Cursor 0) query (execute_argument params)] \<and>
   filter (\<lambda>ev. is_CurClose ev \<or> is_ConnClose ev) (new_events ticket_world
        (snd (run_reconciliation_query driver_ok module_config query params ticket_world))) =
      [CurClose (Cursor 0), ConnClose (Conn 0)]"
proof -
  note acq = get_connection_ok_ticket_world [of module_config]
  have ok: "query_reads_ok driver_ok (Conn 0) query params"
    by (simp add: query_reads_ok_def driver_ok_def read_columns_def column_names_def)
  have out: "query_outcome driver_ok (Conn 0) query params =
      Inr ([PStr ''?column?''], [[PInt 1]])"
    by (simp add: query_outcome_def driver_ok_def read_columns_def column_names_def)
  have cur: "cursor_result driver_ok (Conn 0) = Inr (Cursor 0)" by (simp add: driver_ok_def)
  have res: "fst (run_reconciliation_query driver_ok module_config query params
      ticket_world) = Inr ([PStr ''?column?''], [[PInt 1]])"
  proof -
    have "close_result driver_ok (Conn 0) = None" by (simp add: driver_ok_def)
    then show ?thesis by (simp add: run_reconciliation_query_acquired [OF acq] out)
  qed
  from run_reconciliation_query_events [OF acq, of query params] obtain pre where
      pre: "\<forall>ev\<in>set pre. is_Log ev \<or> is_StartJVM ev \<or> is_Connect ev"
      and ev: "new_events ticket_world (snd (run_reconciliation_query driver_ok module_config
           query params ticket_world)) =
         pre @ query_events driver_ok (Conn 0) query params @
         scope_exit_events driver_ok (Conn 0)
           (query_outcome driver_ok (Conn 0) query params)" by blast
  from pre have p1: "filter is_CurExecute pre = []"
    and p2: "filter (\<lambda>ev. is_CurClose ev \<or> is_ConnClose ev) pre = []"
    by (auto simp: filter_empty_conv)
  from ev p1 cur have e1: "filter is_CurExecute (new_events ticket_world
        (snd (run_reconciliation_query driver_ok module_config query params ticket_world))) =
      [CurExecute (Cursor 0) query (execute_argument params)]"
    by (simp add: scope_exit_events_closes query_events_execute)
  from ev p2 cur ok have e2: "filter (\<lambda>ev. is_CurClose ev \<or> is_ConnClose ev)
       (new_events ticket_world
        (snd (run_reconciliation_query driver_ok module_config query params ticket_world))) =
      [CurClose (Cursor 0), ConnClose (Conn 0)]"
    by (simp add: scope_exit_events_closes query_events_both_closes)
  from res e1 e2 show ?thesis by blast
qed

lemma get_connection_jvm_broken:
  "ticket_cache \<in> files w \<Longrightarrow> jvm w = None \<Longrightarrow>
   get_connection jvm_broken cfg w =
     (Inl jvm_not_found,
      w\<lparr>trace := trace w @ [Log INFO ''Starting JVM with Kerberos configuration'',
          StartJVM (''/usr/lib/jvm/lib/server/libjvm.so'' # jvm_options cfg)]\<rparr>)"
  using get_connection_start_fails [of w jvm_broken "''/usr/lib/jvm/lib/server/libjvm.so''" cfg
    jvm_not_found]
  by (simp add: jvm_broken_def driver_ok_def)

section \<open>The credential prechecker\<close>

text \<open>
  Claim C4. Every call of \<^verbatim>\<open>ensure_kerberos_ticket\<close> returns, and never raises: it returns
  true exactly when the ticket cache exists in the filesystem at the call; when it returns
  false it has logged two warnings, the second the remediation hint, and when it returns
  true it has logged nothing.
\<close>

theorem ensure_kerberos_ticket_reports:
  "fst (ensure_kerberos_ticket w) = Inr (ticket_cache \<in> files w) \<and>
   new_events w (snd (ensure_kerberos_ticket w)) =
     (if ticket_cache \<in> files w then []
      else [Log WARNING (''Kerberos ticket cache not found at '' @ ticket_cache),
            Log WARNING ''Run 'kinit' to authenticate''])"
  by (simp add: ensure_kerberos_ticket_eq)

text \<open>
  Claim C9. When the ticket cache is absent, \<^verbatim>\<open>get_connection\<close> raises the exception
  "No valid Kerberos ticket found"; the JVM state is as it was, and the only calls made are
  the two warnings of the prechecker: no JVM start and no driver connect.
\<close>

theorem get_connection_absent_ticket_raises_first:
  "ticket_cache \<notin> files w \<Longrightarrow>
     fst (get_connection env cfg w) = Inl no_ticket \<and>
     jvm (snd (get_connection env cfg w)) = jvm w \<and>
     new_events w (snd (get_connection env cfg w)) =
       [Log WARNING (''Kerberos ticket cache not found at '' @ ticket_cache),
        Log WARNING ''Run 'kinit' to authenticate''] \<and>
     \<not> list_ex is_StartJVM (new_events w (snd (get_connection env cfg w))) \<and>
     \<not> list_ex is_Connect (new_events w (snd (get_connection env cfg w)))"
  by (simp add: get_connection_no_ticket)

theorem get_connection_absent_ticket_witness:
  "ticket_cache \<notin> files fresh_world \<and>
   fst (get_connection driver_ok module_config fresh_world) = Inl no_ticket \<and>
   jvm (snd (get_connection driver_ok module_config fresh_world)) = None \<and>
   \<not> list_ex is_Connect
       (new_events fresh_world (snd (get_connection driver_ok module_config fresh_world)))"
  using get_connection_absent_ticket_raises_first [of fresh_world driver_ok module_config]
  by (simp add: fresh_world_def)

section \<open>What the driver is asked\<close>

text \<open>
  Claim C6. For every configuration, the URL that \<^verbatim>\<open>get_connection\<close> builds is the wire
  target descriptor of the specification,
  \<^verbatim>\<open>protocol://host:port/database?sslmode=require&kerberosServerName=<principal>&gssEncMode=disable&connectTimeout=<secs>&socketTimeout=<secs>\<close>,
  with protocol \<^verbatim>\<open>jdbc:postgresql\<close>, the module's host, port, database and principal,
  and the timeouts 20 and 300 seconds that the source writes into the URL.
\<close>

theorem jdbc_url_is_wire_target_descriptor:
  "jdbc_url cfg =
     spec_wire_target_descriptor ''jdbc:postgresql'' (HOST cfg) (PORT cfg) (DB cfg) (SPN cfg)
       20 300"
  by (simp add: jdbc_url_def spec_wire_target_descriptor_def str_int_20 str_int_300)

text \<open>
  Claim C7. Whenever \<^verbatim>\<open>get_connection\<close> returns a handle, it has called the driver's
  connect exactly once, as its last call, with four arguments: the driver class name
  \<^verbatim>\<open>org.postgresql.Driver\<close>, the URL, the properties and the driver jar; the handle is
  what that call returned; and the keys of the properties are \<^verbatim>\<open>jaasApplicationName\<close>
  and \<^verbatim>\<open>ApplicationName\<close>, no other.
\<close>

theorem get_connection_driver_invocation:
  assumes "get_connection env cfg w = (Inr c, w')"
  shows "filter is_Connect (new_events w w') =
           [Connect ''org.postgresql.Driver'' (jdbc_url cfg) props (PG_JAR cfg)] \<and>
         last (new_events w w') =
           Connect ''org.postgresql.Driver'' (jdbc_url cfg) props (PG_JAR cfg) \<and>
         connect_result env ''org.postgresql.Driver'' (jdbc_url cfg) props (PG_JAR cfg) = Inr c \<and>
         map fst props = [''jaasApplicationName'', ''ApplicationName'']"
proof -
  from get_connection_returns [OF assms] obtain pre where
    c: "connect_result env ''org.postgresql.Driver'' (jdbc_url cfg) props (PG_JAR cfg) = Inr c"
    and tr: "trace w' = trace w @ pre @
         [Log INFO (''Connecting to '' @ HOST cfg @ '':'' @ str_int (PORT cfg) @ ''/'' @ DB cfg),
          Connect ''org.postgresql.Driver'' (jdbc_url cfg) props (PG_JAR cfg)]"
    and pre: "\<forall>ev\<in>set pre. is_Log ev \<or> is_StartJVM ev" by blast
  from pre have "filter is_Connect pre = []" by (auto simp: filter_empty_conv)
  with tr c show ?thesis by (simp add: props_def)
qed

theorem get_connection_driver_invocation_witness:
  "fst (get_connection driver_ok module_config ticket_world) = Inr (Conn 0) \<and>
   filter is_Connect
     (new_events ticket_world (snd (get_connection driver_ok module_config ticket_world))) =
     [Connect ''org.postgresql.Driver'' (jdbc_url module_config) props (PG_JAR module_config)]"
  using get_connection_driver_invocation [of driver_ok module_config ticket_world "Conn 0"
    "snd (get_connection driver_ok module_config ticket_world)"]
  by (simp add: get_connection_ok_ticket_world)

section \<open>The connection scope\<close>

text \<open>
  Claim C3, as the specification states it: after a false precheck the scope manager goes
  on to start the runtime and to call the driver's connect. It does not: with the ticket
  cache absent and collaborators that would answer every call, the prechecker returns
  false and the scope makes neither a JVM start nor a connect call.
\<close>

theorem false_precheck_proceeds_counterexample:
  "fst (ensure_kerberos_ticket fresh_world) = Inr False \<and>
   \<not> list_ex is_StartJVM (trace (snd (cockroach_connection driver_ok module_config
         (query_body driver_ok ''SELECT 1'' None) fresh_world))) \<and>
   \<not> list_ex is_Connect (trace (snd (cockroach_connection driver_ok module_config
         (query_body driver_ok ''SELECT 1'' None) fresh_world)))"
proof -
  have "ticket_cache \<notin> files fresh_world" by (simp add: fresh_world_def)
  then show ?thesis
    by (simp add: cockroach_connection_no_ticket ensure_kerberos_ticket_eq) (simp add: fresh_world_def)
qed

text \<open>
  Claim C3, amended. Whenever the prechecker returns false, the scope stops there:
  \<^verbatim>\<open>get_connection\<close> raises "No valid Kerberos ticket found", the scope logs the failure
  and raises the same exception to the caller; the caller's body does not run, and the
  trace gains the two warnings and the error line only (no JVM start, no connect, no
  close).
\<close>

theorem cockroach_connection_false_precheck_aborts:
  "fst (ensure_kerberos_ticket w) = Inr False \<Longrightarrow>
   cockroach_connection env cfg body w =
     (Inl no_ticket,
      w\<lparr>trace := trace w @
         [Log WARNING (''Kerberos ticket cache not found at '' @ ticket_cache),
          Log WARNING ''Run 'kinit' to authenticate'',
          Log ERROR ''Connection failed: No valid Kerberos ticket found'']\<rparr>)"
proof -
  assume "fst (ensure_kerberos_ticket w) = Inr False"
  then have "ticket_cache \<notin> files w" by (simp add: ensure_kerberos_ticket_eq split: if_splits)
  then show ?thesis by (rule cockroach_connection_no_ticket)
qed

theorem cockroach_connection_false_precheck_witness:
  "fst (ensure_kerberos_ticket fresh_world) = Inr False \<and>
   fst (cockroach_connection driver_ok module_config (query_body driver_ok ''SELECT 1'' None) fresh_world) = Inl no_ticket"
  using cockroach_connection_false_precheck_aborts [of fresh_world driver_ok module_config "query_body driver_ok ''SELECT 1'' None"]
  by (simp add: ensure_kerberos_ticket_eq fresh_world_def)

text \<open>
  Claim C5, amended. When the acquisition reaches the driver's connect (the ticket cache is
  there and the JVM runs or starts) and the connect raises \<open>e\<close>, the scope raises \<open>e\<close>
  itself to the caller, unchanged; connect has been called once; close is called on no
  handle; the caller's body does not run; and the last thing the scope does is to log
  "Connection failed: " with the text of \<open>e\<close>, when \<open>e\<close> is an \<^verbatim>\<open>Exception\<close>.
\<close>

theorem cockroach_connection_connect_failure:
  assumes ticket: "ticket_cache \<in> files w"
    and runtime: "jvm w \<noteq> None \<or>
       (\<exists>p. jvm_path_result env = Inr p \<and> start_result env (p # jvm_options cfg) = None)"
    and fails: "connect_result env ''org.postgresql.Driver'' (jdbc_url cfg) props (PG_JAR cfg) = Inl e"
  shows "fst (cockroach_connection env cfg body w) = Inl e \<and>
     filter is_Connect (new_events w (snd (cockroach_connection env cfg body w))) =
        [Connect ''org.postgresql.Driver'' (jdbc_url cfg) props (PG_JAR cfg)] \<and>
     \<not> list_ex is_ConnClose (new_events w (snd (cockroach_connection env cfg body w))) \<and>
     last (new_events w (snd (cockroach_connection env cfg body w))) =
       (if is_Exception e then Log ERROR (''Connection failed: '' @ str_of e)
        else Connect ''org.postgresql.Driver'' (jdbc_url cfg) props (PG_JAR cfg)) \<and>
     snd (cockroach_connection env cfg body w) =
       snd (except_clause e (snd (get_connection env cfg w)))"
proof (cases "jvm w")
  case (Some a)
  from get_connection_started [OF ticket Some, of env cfg] fails
  have "get_connection env cfg w = (Inl e, w\<lparr>trace := trace w @
          [Log INFO (''Connecting to '' @ HOST cfg @ '':'' @ str_int (PORT cfg) @ ''/'' @ DB cfg),
           Connect ''org.postgresql.Driver'' (jdbc_url cfg) props (PG_JAR cfg)]\<rparr>)" by simp
  from this cockroach_connection_not_acquired [OF this, of body]
  show ?thesis by (simp add: except_clause_def py_defs)
next
  case None
  with runtime obtain p where p: "jvm_path_result env = Inr p"
    and s: "start_result env (p # jvm_options cfg) = None" by auto
  from get_connection_start_ok [OF ticket None p s] fails
  have "get_connection env cfg w = (Inl e, w\<lparr>jvm := Some (p # jvm_options cfg), trace := trace w @
          [Log INFO ''Starting JVM with Kerberos configuration'',
           StartJVM (p # jvm_options cfg),
           Log INFO (''Connecting to '' @ HOST cfg @ '':'' @ str_int (PORT cfg) @ ''/'' @ DB cfg),
           Connect ''org.postgresql.Driver'' (jdbc_url cfg) props (PG_JAR cfg)]\<rparr>)" by simp
  from this cockroach_connection_not_acquired [OF this, of body]
  show ?thesis by (simp add: except_clause_def py_defs)
qed

theorem cockroach_connection_connect_failure_witness:
  "ticket_cache \<in> files ticket_world \<and>
   connect_result driver_missing ''org.postgresql.Driver'' (jdbc_url module_config) props
     (PG_JAR module_config) = Inl class_not_found \<and>
   fst (cockroach_connection driver_missing module_config
          (query_body driver_missing ''SELECT 1'' None) ticket_world) = Inl class_not_found \<and>
   \<not> list_ex is_ConnClose (new_events ticket_world (snd (cockroach_connection driver_missing
        module_config (query_body driver_missing ''SELECT 1'' None) ticket_world)))"
proof -
  have ticket: "ticket_cache \<in> files ticket_world"
    by (simp add: ticket_world_def)
  have runtime: "jvm ticket_world \<noteq> None \<or>
       (\<exists>p. jvm_path_result driver_missing = Inr p \<and>
            start_result driver_missing (p # jvm_options module_config) = None)"
    by (simp add: driver_missing_def driver_ok_def)
  have fails: "connect_result driver_missing ''org.postgresql.Driver'' (jdbc_url module_config)
      props (PG_JAR module_config) = Inl class_not_found"
    by (simp add: driver_missing_def)
  from cockroach_connection_connect_failure [OF ticket runtime fails,
      of "query_body driver_missing ''SELECT 1'' None"] ticket fails
  show ?thesis by blast
qed

text \<open>
  Claim C5, as the specification states it: the caller sees a \<^verbatim>\<open>DriverError\<close> that wraps
  the driver's failure. The scope re-raises with a bare \<^verbatim>\<open>raise\<close>: when the driver class
  cannot be loaded and connect raises a \<^verbatim>\<open>TypeError\<close>, the caller sees that very
  \<^verbatim>\<open>TypeError\<close>.
\<close>

theorem connect_failure_not_wrapped_counterexample:
  "fst (cockroach_connection driver_missing module_config
          (query_body driver_missing ''SELECT 1'' None) ticket_world) = Inl class_not_found \<and>
   cls class_not_found = ''TypeError'' \<and> cls class_not_found \<noteq> ''DriverError''"
  using cockroach_connection_not_acquired [OF get_connection_missing_ticket_world,
     of module_config "query_body driver_missing ''SELECT 1'' None"]
  by (simp add: class_not_found_def)

text \<open>
  Claim C1. Whenever \<^verbatim>\<open>get_connection\<close> has returned a handle \<open>c\<close>, the scope calls
  \<^verbatim>\<open>close\<close> on \<open>c\<close> exactly once before it exits, whatever the outcome \<open>r\<close> of the
  caller's body, a returned value or a raised exception: the calls the scope makes after
  the body are the error line (when an \<^verbatim>\<open>Exception\<close> came out of the body), one close of
  \<open>c\<close>, and the closing line (when close returned). The body is any computation that
  adds its own calls to the trace and does not itself close \<open>c\<close>. The scope exits with
  the body's outcome, unless close raised.
\<close>

theorem cockroach_connection_closes_once:
  assumes acquired: "get_connection env cfg w = (Inr c, w1)"
    and body: "body c (snd (logger_info ''Connection established successfully'' w1)) = (r, w2)"
    and grows: "trace w2 = trace w1 @ Log INFO ''Connection established successfully'' # bevs"
    and body_leaves_open: "ConnClose c \<notin> set bevs"
  shows "count_list (new_events w (snd (cockroach_connection env cfg body w))) (ConnClose c) = 1 \<and>
     new_events w2 (snd (cockroach_connection env cfg body w)) = scope_exit_events env c r \<and>
     count_list (scope_exit_events env c r) (ConnClose c) = 1 \<and>
     fst (cockroach_connection env cfg body w) =
       (case close_result env c of Some e' \<Rightarrow> Inl e' | None \<Rightarrow> r)"
proof -
  from get_connection_returns [OF acquired] obtain pre where
    tr: "trace w1 = trace w @ pre @
         [Log INFO (''Connecting to '' @ HOST cfg @ '':'' @ str_int (PORT cfg) @ ''/'' @ DB cfg),
          Connect ''org.postgresql.Driver'' (jdbc_url cfg) props (PG_JAR cfg)]"
    and pre: "\<forall>ev\<in>set pre. is_Log ev \<or> is_StartJVM ev" by blast
  from pre have no_close: "count_list pre (ConnClose c) = 0" by (auto simp: count_list_0_iff)
  from body have b: "body c (w1\<lparr>trace := trace w1 @ [Log INFO ''Connection established successfully'']\<rparr>) = (r, w2)"
    by (simp add: py_defs)
  have exit1: "count_list (scope_exit_events env c r) (ConnClose c) = 1"
    by (simp add: scope_exit_events_def split: sum.split option.split)
  from body_leaves_open have bev: "count_list bevs (ConnClose c) = 0" by (simp add: count_list_0_iff)
  note cc = cockroach_connection_acquired [where body = body, OF acquired b]
  have "trace (snd (cockroach_connection env cfg body w)) =
      trace w @ (pre @ [Log INFO (''Connecting to '' @ HOST cfg @ '':'' @ str_int (PORT cfg) @ ''/'' @ DB cfg),
          Connect ''org.postgresql.Driver'' (jdbc_url cfg) props (PG_JAR cfg),
          Log INFO ''Connection established successfully''] @ bevs @ scope_exit_events env c r)"
    by (simp add: cc grows tr)
  then have "new_events w (snd (cockroach_connection env cfg body w)) =
      pre @ [Log INFO (''Connecting to '' @ HOST cfg @ '':'' @ str_int (PORT cfg) @ ''/'' @ DB cfg),
          Connect ''org.postgresql.Driver'' (jdbc_url cfg) props (PG_JAR cfg),
          Log INFO ''Connection established successfully''] @ bevs @ scope_exit_events env c r"
    by (rule new_events_append)
  then have "count_list (new_events w (snd (cockroach_connection env cfg body w))) (ConnClose c) = 1"
    by (simp add: no_close bev exit1)
  moreover have "new_events w2 (snd (cockroach_connection env cfg body w)) = scope_exit_events env c r"
    by (simp add: cc)
  ultimately show ?thesis using exit1 by (simp add: cc)
qed

theorem cockroach_connection_closes_once_witness:
  "fst (cockroach_connection driver_ok module_config
          (query_body driver_ok ''SELECT 1'' None) ticket_world) =
     Inr ([PStr ''?column?''], [[PInt 1]]) \<and>
   count_list (new_events ticket_world (snd (cockroach_connection driver_ok module_config
          (query_body driver_ok ''SELECT 1'' None) ticket_world))) (ConnClose (Conn 0)) = 1 \<and>
   fst (cockroach_connection driver_rejects module_config
          (query_body driver_rejects ''SELEC 1'' None) ticket_world) = Inl syntax_error \<and>
   count_list (new_events ticket_world (snd (cockroach_connection driver_rejects module_config
          (query_body driver_rejects ''SELEC 1'' None) ticket_world))) (ConnClose (Conn 0)) = 1"
proof -
  have ok: "count_list (new_events ticket_world (snd (cockroach_connection driver_ok module_config
          (query_body driver_ok ''SELECT 1'' None) ticket_world))) (ConnClose (Conn 0)) = 1 \<and>
     fst (cockroach_connection driver_ok module_config
          (query_body driver_ok ''SELECT 1'' None) ticket_world) =
       (case close_result driver_ok (Conn 0) of Some e' \<Rightarrow> Inl e'
        | None \<Rightarrow> Inr ([PStr ''?column?''], [[PInt 1]]))"
    using cockroach_connection_closes_once [OF get_connection_ok_ticket_world,
      where body = "query_body driver_ok ''SELECT 1'' None"
        and bevs = "[ConnCursor (Conn 0), CurExecute (Cursor 0) ''SELECT 1'' None,
                     CurFetchall (Cursor 0), CurClose (Cursor 0)]",
      OF query_body_driver_ok]
    by (simp add: py_defs)
  have rej: "count_list (new_events ticket_world (snd (cockroach_connection driver_rejects
          module_config (query_body driver_rejects ''SELEC 1'' None) ticket_world)))
          (ConnClose (Conn 0)) = 1 \<and>
     fst (cockroach_connection driver_rejects module_config
          (query_body driver_rejects ''SELEC 1'' None) ticket_world) =
       (case close_result driver_rejects (Conn 0) of Some e' \<Rightarrow> Inl e'
        | None \<Rightarrow> Inl syntax_error)"
    using cockroach_connection_closes_once [OF get_connection_rejects_ticket_world,
      where body = "query_body driver_rejects ''SELEC 1'' None"
        and bevs = "[ConnCursor (Conn 0), CurExecute (Cursor 0) ''SELEC 1'' None]",
      OF query_body_driver_rejects]
    by (simp add: py_defs)
  from ok rej show ?thesis by (simp add: driver_ok_def driver_rejects_def)
qed

section \<open>Running a query\<close>

text \<open>
  Claim C8, as the specification states it: when params are supplied, the query is executed
  with them. The source tests \<^verbatim>\<open>if params:\<close>, and an empty sequence is false: called
  with the empty list, the function returns its pair, and the one \<^verbatim>\<open>execute\<close> call it
  made carries no parameter argument.
\<close>

theorem empty_params_not_passed_counterexample:
  "fst (run_reconciliation_query driver_ok module_config ''SELECT 1'' (Some []) ticket_world) =
     Inr ([PStr ''?column?''], [[PInt 1]]) \<and>
   filter is_CurExecute (new_events ticket_world
        (snd (run_reconciliation_query driver_ok module_config ''SELECT 1'' (Some [])
               ticket_world))) =
      [CurExecute (Cursor 0) ''SELECT 1'' None] \<and>
   CurExecute (Cursor 0) ''SELECT 1'' None \<noteq> CurExecute (Cursor 0) ''SELECT 1'' (Some [])"
  using run_reconciliation_query_driver_ok [of "''SELECT 1''" "Some []"]
  by (simp add: execute_argument_def truthy_def)

text \<open>
  Claim C8, amended. Whenever \<^verbatim>\<open>run_reconciliation_query\<close> returns a pair, its first
  component is the list of the first items of the entries of the cursor's description,
  in order, and its second is what \<^verbatim>\<open>fetchall\<close> returned; the cursor is the one the
  connection gave, the connection the one the driver gave; and \<^verbatim>\<open>execute\<close> was called
  once, with \<^verbatim>\<open>params\<close> when \<^verbatim>\<open>params\<close> is true (supplied and not empty), and without
  a parameter argument when it is \<^verbatim>\<open>None\<close> or empty.
\<close>

theorem run_reconciliation_query_result:
  assumes "run_reconciliation_query env cfg query params w = (Inr (columns, rows), w')"
  shows "\<exists>c cur descs.
     connect_result env ''org.postgresql.Driver'' (jdbc_url cfg) props (PG_JAR cfg) = Inr c \<and>
     cursor_result env c = Inr cur \<and>
     description_result env cur = Inr (Some descs) \<and> [] \<notin> set descs \<and>
     columns = map hd descs \<and>
     fetchall_result env cur = Inr rows \<and>
     filter is_CurExecute (new_events w w') =
       [CurExecute cur query (if truthy params then params else None)]"
proof (cases "get_connection env cfg w")
  case (Pair r w1)
  show ?thesis
  proof (cases r)
    case (Inl e)
    with Pair have "get_connection env cfg w = (Inl e, w1)" by simp
    from cockroach_connection_not_acquired [OF this, of "query_body env query params"] assms
    show ?thesis by (simp add: run_reconciliation_query_def)
  next
    case (Inr c)
    with Pair have acquired: "get_connection env cfg w = (Inr c, w1)" by simp
    from get_connection_returns [OF acquired]
    have conn: "connect_result env ''org.postgresql.Driver'' (jdbc_url cfg) props (PG_JAR cfg) = Inr c"
      by blast
    from run_reconciliation_query_acquired [OF acquired, of query params] assms
    have out: "query_outcome env c query params = Inr (columns, rows)"
      by (simp split: option.splits)
    then obtain cur where cur: "cursor_result env c = Inr cur"
      and fetched: "fetchall_result env cur = Inr rows"
      and cols: "read_columns env cur = Inr columns"
      by (auto simp: query_outcome_Inr)
    from cols obtain descs where d: "description_result env cur = Inr (Some descs)"
      and fi: "first_items descs = Inr columns"
      by (auto simp: read_columns_def column_names_def split: sum.splits option.splits)
    from fi have ne: "[] \<notin> set descs" and hd: "columns = map hd descs"
      by (simp_all add: first_items_Inr)
    from run_reconciliation_query_events [OF acquired, of query params] obtain pre where
      pre: "\<forall>ev\<in>set pre. is_Log ev \<or> is_StartJVM ev \<or> is_Connect ev"
      and ev: "new_events w (snd (run_reconciliation_query env cfg query params w)) =
         pre @ query_events env c query params @
         scope_exit_events env c (query_outcome env c query params)" by blast
    from pre have "filter is_CurExecute pre = []" by (auto simp: filter_empty_conv)
    with ev assms cur have "filter is_CurExecute (new_events w w') =
       [CurExecute cur query (if truthy params then params else None)]"
      by (simp add: query_events_execute scope_exit_events_closes execute_argument_def)
    with conn cur d ne hd fetched show ?thesis by blast
  qed
qed

theorem run_reconciliation_query_result_witness:
  "fst (run_reconciliation_query driver_ok module_config ''SELECT $1'' (Some [PInt 1])
          ticket_world) = Inr ([PStr ''?column?''], [[PInt 1]]) \<and>
   [PStr ''?column?''] = map hd [[PStr ''?column?'', PInt 23]] \<and>
   filter is_CurExecute (new_events ticket_world
        (snd (run_reconciliation_query driver_ok module_config ''SELECT $1'' (Some [PInt 1])
               ticket_world))) =
      [CurExecute (Cursor 0) ''SELECT $1'' (Some [PInt 1])]"
proof -
  have h: "run_reconciliation_query driver_ok module_config ''SELECT $1'' (Some [PInt 1])
      ticket_world = (Inr ([PStr ''?column?''], [[PInt 1]]),
        snd (run_reconciliation_query driver_ok module_config ''SELECT $1'' (Some [PInt 1])
          ticket_world))"
    using run_reconciliation_query_driver_ok [of "''SELECT $1''" "Some [PInt 1]"]
    by (simp add: prod_eq_iff)
  have res: "fst (run_reconciliation_query driver_ok module_config ''SELECT $1''
      (Some [PInt 1]) ticket_world) = Inr ([PStr ''?column?''], [[PInt 1]])"
    using run_reconciliation_query_driver_ok [of "''SELECT $1''" "Some [PInt 1]"] by blast
  from run_reconciliation_query_result [OF h] obtain c cur where
    "cursor_result driver_ok c = Inr cur"
    "filter is_CurExecute (new_events ticket_world
        (snd (run_reconciliation_query driver_ok module_config ''SELECT $1'' (Some [PInt 1])
               ticket_world))) =
      [CurExecute cur ''SELECT $1'' (if truthy (Some [PInt 1]) then Some [PInt 1] else None)]"
    by blast
  then have "filter is_CurExecute (new_events ticket_world
        (snd (run_reconciliation_query driver_ok module_config ''SELECT $1'' (Some [PInt 1])
               ticket_world))) =
      [CurExecute (Cursor 0) ''SELECT $1'' (Some [PInt 1])]"
    by (simp add: driver_ok_def truthy_def)
  with res show ?thesis by simp
qed

text \<open>
  Claim C10. Whenever the connection was acquired, \<^verbatim>\<open>run_reconciliation_query\<close> closes it
  exactly once, however the body ends. When creating the cursor, executing, fetching or
  reading the description raises, the function raises and no cursor is closed. When they
  all return, the cursor is closed once, and that close is followed by the close of the
  connection: \<^verbatim>\<open>cursor.close\<close> is reached on that path only.
\<close>

theorem run_reconciliation_query_cursor_close:
  assumes acquired: "get_connection env cfg w = (Inr c, w1)"
  shows
    "count_list (new_events w (snd (run_reconciliation_query env cfg query params w)))
       (ConnClose c) = 1 \<and>
     (\<not> query_reads_ok env c query params \<longrightarrow>
        isl (fst (run_reconciliation_query env cfg query params w)) \<and>
        \<not> list_ex is_CurClose
            (new_events w (snd (run_reconciliation_query env cfg query params w)))) \<and>
     (query_reads_ok env c query params \<longrightarrow>
        (\<exists>cur. cursor_result env c = Inr cur \<and>
           filter (\<lambda>ev. is_CurClose ev \<or> is_ConnClose ev)
             (new_events w (snd (run_reconciliation_query env cfg query params w))) =
             [CurClose cur, ConnClose c]))"
proof -
  from run_reconciliation_query_events [OF acquired, of query params] obtain pre where
    pre: "\<forall>ev\<in>set pre. is_Log ev \<or> is_StartJVM ev \<or> is_Connect ev"
    and ev: "new_events w (snd (run_reconciliation_query env cfg query params w)) =
       pre @ query_events env c query params @
       scope_exit_events env c (query_outcome env c query params)" by blast
  from pre have pre_count: "count_list pre (ConnClose c) = 0"
    by (auto simp: count_list_0_iff)
  from pre have pre_cur: "filter is_CurClose pre = []"
    by (auto simp: filter_empty_conv)
  from pre have pre_both: "filter (\<lambda>ev. is_CurClose ev \<or> is_ConnClose ev) pre = []"
    by (auto simp: filter_empty_conv)
  have once: "count_list (new_events w (snd (run_reconciliation_query env cfg query params w)))
       (ConnClose c) = 1"
    by (simp add: ev pre_count query_events_closes scope_exit_events_closes)
  have fails: "isl (fst (run_reconciliation_query env cfg query params w)) \<and>
        \<not> list_ex is_CurClose
            (new_events w (snd (run_reconciliation_query env cfg query params w)))"
    if "\<not> query_reads_ok env c query params"
  proof -
    from that have "isl (query_outcome env c query params)" by (rule query_outcome_not_ok)
    then have "isl (fst (run_reconciliation_query env cfg query params w))"
      by (simp add: run_reconciliation_query_acquired [OF acquired] split: option.split)
    moreover have "filter is_CurClose
        (new_events w (snd (run_reconciliation_query env cfg query params w))) = []"
      using that
      by (simp add: ev pre_cur query_events_cursor_close scope_exit_events_closes
            split: sum.split)
    then have "\<not> list_ex is_CurClose
        (new_events w (snd (run_reconciliation_query env cfg query params w)))"
      by (simp add: filter_empty_conv list_ex_iff)
    ultimately show ?thesis by simp
  qed
  have succeeds: "\<exists>cur. cursor_result env c = Inr cur \<and>
           filter (\<lambda>ev. is_CurClose ev \<or> is_ConnClose ev)
             (new_events w (snd (run_reconciliation_query env cfg query params w))) =
             [CurClose cur, ConnClose c]"
    if "query_reads_ok env c query params"
  proof -
    from that obtain cur where cur: "cursor_result env c = Inr cur"
      by (auto simp: query_reads_ok_def split: sum.splits)
    have "filter (\<lambda>ev. is_CurClose ev \<or> is_ConnClose ev)
             (new_events w (snd (run_reconciliation_query env cfg query params w))) =
             [CurClose cur, ConnClose c]"
      using that cur
      by (simp add: ev pre_both query_events_both_closes scope_exit_events_closes)
    with cur show ?thesis by simp
  qed
  from once fails succeeds show ?thesis by blast
qed

theorem run_reconciliation_query_cursor_close_witness:
  "fst (get_connection driver_rejects module_config ticket_world) = Inr (Conn 0) \<and>
   \<not> query_reads_ok driver_rejects (Conn 0) ''SELEC 1'' None \<and>
   count_list (new_events ticket_world
       (snd (run_reconciliation_query driver_rejects module_config ''SELEC 1'' None
              ticket_world))) (ConnClose (Conn 0)) = 1 \<and>
   \<not> list_ex is_CurClose (new_events ticket_world
       (snd (run_reconciliation_query driver_rejects module_config ''SELEC 1'' None
              ticket_world))) \<and>
   query_reads_ok driver_ok (Conn 0) ''SELECT 1'' None \<and>
   filter (\<lambda>ev. is_CurClose ev \<or> is_ConnClose ev) (new_events ticket_world
       (snd (run_reconciliation_query driver_ok module_config ''SELECT 1'' None
              ticket_world))) = [CurClose (Cursor 0), ConnClose (Conn 0)]"
proof -
  have bad: "\<not> query_reads_ok driver_rejects (Conn 0) ''SELEC 1'' None"
    by (simp add: query_reads_ok_def driver_rejects_def driver_ok_def)
  have good: "query_reads_ok driver_ok (Conn 0) ''SELECT 1'' None"
    by (simp add: query_reads_ok_def driver_ok_def read_columns_def column_names_def)
  have cur: "cursor_result driver_ok (Conn 0) = Inr (Cursor 0)" by (simp add: driver_ok_def)
  from run_reconciliation_query_cursor_close [OF get_connection_rejects_ticket_world, of module_config "''SELEC 1''" None] bad
  have a: "count_list (new_events ticket_world
       (snd (run_reconciliation_query driver_rejects module_config ''SELEC 1'' None
              ticket_world))) (ConnClose (Conn 0)) = 1"
    and b: "\<not> list_ex is_CurClose (new_events ticket_world
       (snd (run_reconciliation_query driver_rejects module_config ''SELEC 1'' None
              ticket_world)))" by blast+
  from run_reconciliation_query_cursor_close [OF get_connection_ok_ticket_world, of module_config "''SELECT 1''" None] good cur
  have c: "filter (\<lambda>ev. is_CurClose ev \<or> is_ConnClose ev) (new_events ticket_world
       (snd (run_reconciliation_query driver_ok module_config ''SELECT 1'' None
              ticket_world))) = [CurClose (Cursor 0), ConnClose (Conn 0)]" by auto
  from a b c bad good show ?thesis by (simp add: get_connection_rejects_ticket_world)
qed

section \<open>Starting the runtime\<close>

text \<open>
  Claim C2, as the specification states it: over any sequence of acquisitions the JVM
  start is called at most once. A start that raises leaves the JVM not started, and the
  guard of the next acquisition lets it call the start again: with a JVM that cannot be
  started, two acquisitions make two start calls.
\<close>

theorem failed_start_repeated_counterexample:
  "start_count (trace (get_connections
      [(jvm_broken, module_config), (jvm_broken, module_config)] ticket_world)) = 2"
  by (simp add: get_connection_jvm_broken ticket_world_def start_count_def)

text \<open>
  Claim C2, amended. Over any sequence of acquisitions in which no JVM start raises, the
  start is called at most once. When the JVM is already started, no acquisition of the
  sequence calls the start and the JVM keeps the arguments it was started with. When it
  is not, and the first acquisition finds the ticket cache and the JVM path, that
  acquisition calls the start, with the options of its own configuration, and no later
  one does: at the end the JVM still runs with the first configuration's options.
\<close>

theorem get_connections_start_once:
  assumes no_failure: "\<forall>(env, cfg)\<in>set calls. \<forall>args. start_result env args = None"
  shows "start_count (new_events w (get_connections calls w)) \<le> 1 \<and>
     (jvm w \<noteq> None \<longrightarrow>
        start_count (new_events w (get_connections calls w)) = 0 \<and>
        jvm (get_connections calls w) = jvm w) \<and>
     (\<forall>env cfg rest p.
        calls = (env, cfg) # rest \<and> jvm w = None \<and> ticket_cache \<in> files w \<and>
        jvm_path_result env = Inr p \<longrightarrow>
        jvm (get_connections calls w) = Some (p # jvm_options cfg) \<and>
        filter is_StartJVM (new_events w (get_connections calls w)) =
          [StartJVM (p # jvm_options cfg)])"
proof (intro conjI impI allI)
  from get_connections_at_most_one_start [OF no_failure, of w] obtain evs where
    "trace (get_connections calls w) = trace w @ evs" "length (filter is_StartJVM evs) \<le> 1"
    by blast
  then show "start_count (new_events w (get_connections calls w)) \<le> 1"
    by (simp add: start_count_def)
next
  assume "jvm w \<noteq> None"
  then obtain a where a: "jvm w = Some a" by auto
  from get_connections_started [OF a, of calls] a
  show "start_count (new_events w (get_connections calls w)) = 0"
    by (auto simp: start_count_def)
next
  assume "jvm w \<noteq> None"
  then obtain a where a: "jvm w = Some a" by auto
  from get_connections_started [OF a, of calls] a
  show "jvm (get_connections calls w) = jvm w" by simp
next
  fix env cfg rest p
  assume h: "calls = (env, cfg) # rest \<and> jvm w = None \<and> ticket_cache \<in> files w \<and>
        jvm_path_result env = Inr p"
  with no_failure have ok: "start_result env (p # jvm_options cfg) = None" by auto
  from h get_connections_first_start [of w env p cfg rest] ok
  show "jvm (get_connections calls w) = Some (p # jvm_options cfg)" by simp
next
  fix env cfg rest p
  assume h: "calls = (env, cfg) # rest \<and> jvm w = None \<and> ticket_cache \<in> files w \<and>
        jvm_path_result env = Inr p"
  with no_failure have ok: "start_result env (p # jvm_options cfg) = None" by auto
  from h get_connections_first_start [of w env p cfg rest] ok
  show "filter is_StartJVM (new_events w (get_connections calls w)) =
          [StartJVM (p # jvm_options cfg)]" by simp
qed

theorem get_connections_start_once_witness:
  "start_count (new_events ticket_world (get_connections
      [(driver_ok, module_config), (driver_ok, module_config)] ticket_world)) \<le> 1 \<and>
   jvm (get_connections
      [(driver_ok, module_config), (driver_ok, module_config)] ticket_world) =
     Some (''/usr/lib/jvm/lib/server/libjvm.so'' # jvm_options module_config)"
proof -
  have h: "\<forall>(env, cfg)\<in>set [(driver_ok, module_config), (driver_ok, module_config)].
      \<forall>args. start_result env args = None"
    by (simp add: driver_ok_def)
  note t = get_connections_start_once [OF h, of ticket_world]
  from t have a: "start_count (new_events ticket_world (get_connections
      [(driver_ok, module_config), (driver_ok, module_config)] ticket_world)) \<le> 1" by blast
  have p: "jvm_path_result driver_ok = Inr ''/usr/lib/jvm/lib/server/libjvm.so''"
    by (simp add: driver_ok_def)
  have s: "jvm ticket_world = None \<and> ticket_cache \<in> files ticket_world"
    by (simp add: ticket_world_def)
  from t p s have "jvm (get_connections
      [(driver_ok, module_config), (driver_ok, module_config)] ticket_world) =
     Some (''/usr/lib/jvm/lib/server/libjvm.so'' # jvm_options module_config)"
    by blast
  with a show ?thesis by simp
qed

end
